theory Spec2Isabelle
  imports Complex_Main "HOL-Library.Word"
begin

section \<open>The weirdness checker: \<open>server.js\<close>\<close>

text \<open>
  The program is one Express handler, \<open>POST /analyze\<close>, and the helper \<open>escapeHtml\<close>.
  The handler trims the submitted sentence, counts its words, asks a language-model
  provider for the log-probabilities of the sentence's tokens, turns their mean into a
  perplexity and the perplexity into a score between 0 and 100, and renders a page.

  Conventions of the embedding:
  \<^item> a JavaScript string is the list of its UTF-16 code units (\<open>16 word\<close>);
  \<^item> a finite JavaScript number is the real number it denotes. In \<open>ppl\<close>, \<open>raw\<close> and
    \<open>weirdness\<close> the arithmetic of the handler (\<open>+\<close>, \<open>/\<close>, \<open>Math.exp\<close>, \<open>Math.log\<close>,
    \<open>**\<close>, \<open>*\<close>) is the exact arithmetic of the reals, so the rounding error of IEEE
    doubles, underflow, overflow to \<open>Infinity\<close> and \<open>NaN\<close> are outside these three. In
    \<open>raw_on\<close> and \<open>weirdness_on\<close> the same operations are parameters, which stand for
    whatever the platform's double arithmetic computes; \<open>Math.round\<close>, \<open>Math.max\<close> and
    \<open>Math.min\<close> are exact on doubles and are the same in both;
  \<^item> an exception thrown inside the \<open>try\<close> block is a value of type \<open>error\<close>;
  \<^item> the environment, the network and the formatting of a number
    (\<open>Number.prototype.toFixed\<close>) are parameters of the handler;
  \<^item> the effects of a run (calls of \<open>fetch\<close>, lines written by \<open>console.error\<close>) are
    collected in a list of events.

  The earlier revisions of the file that are kept with the source compute the score and
  escape HTML with the same expressions.
\<close>

subsection \<open>Strings\<close>

type_synonym code_unit = "16 word"
type_synonym jsstring = "code_unit list"

text \<open>A string literal of the source, all of whose characters are ASCII.\<close>

definition str :: "string \<Rightarrow> jsstring" where
  "str s = map of_char s"

text \<open>
  The characters matched by \<open>\s\<close> and removed by \<open>String.prototype.trim\<close>: ECMAScript's
  WhiteSpace (TAB, VT, FF, ZWNBSP and the Unicode category Zs) and LineTerminator
  (LF, CR, LS, PS).
\<close>

definition isWhiteSpace :: "code_unit \<Rightarrow> bool" where
  "isWhiteSpace c \<longleftrightarrow>
     c \<in> {0x0009, 0x000A, 0x000B, 0x000C, 0x000D, 0x0020, 0x00A0, 0x1680,
          0x2028, 0x2029, 0x202F, 0x205F, 0x3000, 0xFEFF}
     \<or> (0x2000 \<le> c \<and> c \<le> 0x200A)"

text \<open>\<open>s.trim()\<close>\<close>

definition trim :: "jsstring \<Rightarrow> jsstring" where
  "trim s = rev (dropWhile isWhiteSpace (rev (dropWhile isWhiteSpace s)))"

text \<open>
  \<open>s.split(/\s+/)\<close>. The pattern never matches the empty string, so the result always
  ends with the fragment that follows the last match (\<open>[""]\<close> for the empty string), and
  a match at the very start or end of \<open>s\<close> leaves an empty fragment there.
  \<open>split_from cur rest\<close> has read the fragment \<open>cur\<close> so far and still has to read
  \<open>rest\<close>.
\<close>

function split_from :: "jsstring \<Rightarrow> jsstring \<Rightarrow> jsstring list" where
  "split_from cur [] = [cur]"
| "split_from cur (c # cs) =
     (if isWhiteSpace c then cur # split_from [] (dropWhile isWhiteSpace cs)
      else split_from (cur @ [c]) cs)"
  by pat_completeness auto
termination
  by (relation "measure (\<lambda>(cur, rest). length rest)")
     (auto simp: length_dropWhile_le less_Suc_eq_le)

definition split_ws :: "jsstring \<Rightarrow> jsstring list" where
  "split_ws s = split_from [] s"

text \<open>\<open>Boolean(s)\<close> for a string \<open>s\<close>: every string but the empty one is truthy.\<close>

definition Boolean_str :: "jsstring \<Rightarrow> bool" where
  "Boolean_str s \<longleftrightarrow> s \<noteq> []"

text \<open>\<open>sentence.split(/\s+/).filter(Boolean).length\<close>\<close>

definition wordCount :: "jsstring \<Rightarrow> nat" where
  "wordCount sentence = length (filter Boolean_str (split_ws sentence))"

text \<open>
  The specification's reading of a word count, independent of \<open>split\<close>: the words of a
  string are its maximal runs of characters that are not whitespace, in order.
\<close>

function words_of :: "jsstring \<Rightarrow> jsstring list" where
  "words_of s =
     (case dropWhile isWhiteSpace s of
        [] \<Rightarrow> []
      | c # cs \<Rightarrow> (c # takeWhile (\<lambda>x. \<not> isWhiteSpace x) cs)
                 # words_of (dropWhile (\<lambda>x. \<not> isWhiteSpace x) cs))"
  by pat_completeness auto
termination
proof (relation "measure length", simp)
  fix s :: jsstring and c cs
  assume eq: "dropWhile isWhiteSpace s = c # cs"
  have "length (dropWhile (\<lambda>x. \<not> isWhiteSpace x) cs) \<le> length cs"
    by (rule length_dropWhile_le)
  also have "length cs < length (dropWhile isWhiteSpace s)"
    by (simp add: eq)
  also have "\<dots> \<le> length s"
    by (rule length_dropWhile_le)
  finally show "(dropWhile (\<lambda>x. \<not> isWhiteSpace x) cs, s) \<in> measure length"
    by simp
qed

declare words_of.simps [simp del]

text \<open>\<open>s.replace(/c/g, r)\<close> for a single character \<open>c\<close> and a replacement without \<open>$\<close>.\<close>

definition replaceAll :: "code_unit \<Rightarrow> jsstring \<Rightarrow> jsstring \<Rightarrow> jsstring" where
  "replaceAll c r s = concat (map (\<lambda>x. if x = c then r else [x]) s)"

definition escapeHtml :: "jsstring \<Rightarrow> jsstring" where
  "escapeHtml unsafe =
     replaceAll 0x27 (str ''&#039;'')
       (replaceAll 0x22 (str ''&quot;'')
         (replaceAll 0x3E (str ''&gt;'')
           (replaceAll 0x3C (str ''&lt;'')
             (replaceAll 0x26 (str ''&amp;'') unsafe))))"

text \<open>The entity that stands for one character of the input, for comparison.\<close>

definition entity :: "code_unit \<Rightarrow> jsstring" where
  "entity c =
     (if c = 0x26 then str ''&amp;''
      else if c = 0x3C then str ''&lt;''
      else if c = 0x3E then str ''&gt;''
      else if c = 0x22 then str ''&quot;''
      else if c = 0x27 then str ''&#039;''
      else [c])"

subsection \<open>The scoring pipeline\<close>

text \<open>One element of \<open>data.details.prefill\<close>; \<open>None\<close> is a missing (or \<open>null\<close>) \<open>logprob\<close>.\<close>

record token =
  logprob :: "real option"

text \<open>\<open>token.logprob || 0\<close>: a missing value and the number 0 are falsy.\<close>

definition logprob_or_0 :: "token \<Rightarrow> real" where
  "logprob_or_0 t = (case logprob t of None \<Rightarrow> 0 | Some v \<Rightarrow> if v = 0 then 0 else v)"

text \<open>\<open>prefill.map(token => token.logprob || 0).reduce((a, b) => a + b, 0)\<close>\<close>

definition totalLogProb :: "token list \<Rightarrow> real" where
  "totalLogProb prefill = foldl (\<lambda>a b. a + b) 0 (map logprob_or_0 prefill)"

definition tokenCount :: "token list \<Rightarrow> nat" where
  "tokenCount prefill = length prefill"

definition avgLogProb :: "token list \<Rightarrow> real" where
  "avgLogProb prefill = totalLogProb prefill / real (tokenCount prefill)"

definition ppl :: "token list \<Rightarrow> real" where
  "ppl prefill = exp (- avgLogProb prefill)"

text \<open>\<open>Math.round\<close>: the nearest integer, a tie going to the larger one.\<close>

definition Math_round :: "real \<Rightarrow> int" where
  "Math_round x = \<lfloor>x + 1 / 2\<rfloor>"

text \<open>\<open>(Math.log(p + 1) ** 1.7) * 11\<close>\<close>

definition raw :: "real \<Rightarrow> real" where
  "raw p = (ln (p + 1) powr (17 / 10)) * 11"

text \<open>\<open>Math.min(100, Math.max(0, Math.round(raw)))\<close>\<close>

definition weirdness :: "real \<Rightarrow> int" where
  "weirdness p = min 100 (max 0 (Math_round (raw p)))"

text \<open>
  Rounding as the specification words it: to the nearest integer, a tie going away from
  zero.
\<close>

definition round_half_away :: "real \<Rightarrow> int" where
  "round_half_away x = (if 0 \<le> x then \<lfloor>x + 1 / 2\<rfloor> else - \<lfloor>- x + 1 / 2\<rfloor>)"

text \<open>
  The score on the arithmetic of the platform. The operations of
  \<open>(Math.log(p + 1) ** 1.7) * 11\<close> give doubles, and which double each of them gives is
  the platform's affair (ECMAScript leaves \<open>Math.log\<close> and \<open>**\<close> to the
  implementation): the record holds the Number that the literal \<open>1.7\<close> denotes and the
  four operations, as functions on the values of finite doubles. For a finite positive
  \<open>p\<close> every intermediate value of the expression is finite.
\<close>

record arith =
  num_1_7 :: real
  num_add :: "real \<Rightarrow> real \<Rightarrow> real"
  Math_log :: "real \<Rightarrow> real"
  num_pow :: "real \<Rightarrow> real \<Rightarrow> real"
  num_mul :: "real \<Rightarrow> real \<Rightarrow> real"

definition raw_on :: "arith \<Rightarrow> real \<Rightarrow> real" where
  "raw_on P p = num_mul P (num_pow P (Math_log P (num_add P p 1)) (num_1_7 P)) 11"

definition weirdness_on :: "arith \<Rightarrow> real \<Rightarrow> int" where
  "weirdness_on P p = min 100 (max 0 (Math_round (raw_on P p)))"


subsection \<open>The provider and the handler\<close>

record env =
  HF_TOKEN :: "jsstring option"

record fetch_request =
  url :: jsstring
  authorization :: jsstring
  inputs :: jsstring

text \<open>
  The body of the provider's answer as \<open>hfResponse.json()\<close> sees it: not JSON at all
  (the promise rejects), \<open>null\<close>, or an object whose \<open>details\<close> and \<open>details.prefill\<close>
  may be missing.
\<close>

record hf_details =
  prefill :: "token list option"

record hf_data =
  details :: "hf_details option"

datatype parsed = Malformed | JsonNull | JsonObject hf_data

record fetch_response =
  ok :: bool
  status :: nat
  body_text :: jsstring
  body_json :: parsed

datatype fetch_outcome = NetworkError | Response fetch_response

text \<open>What the \<open>try\<close> block can throw, one constructor for each place that throws.\<close>

datatype error =
    TokenNotSet
  | FetchRejected
  | ApiError nat jsstring
  | JsonRejected
  | NoLogprobs

datatype event = Fetch fetch_request | ConsoleError error

text \<open>The three variables the \<open>try\<close> and \<open>catch\<close> blocks assign.\<close>

record vars =
  v_weirdness :: int
  v_perplexityInfo :: jsstring
  v_errorMessage :: "jsstring option"

text \<open>The values interpolated into the page that \<open>res.send\<close> receives.\<close>

record page =
  p_sentence :: jsstring
  p_wordCount :: nat
  p_weirdness :: int
  p_perplexityInfo :: jsstring
  p_error :: "jsstring option"

datatype http_result = Redirect jsstring | Send page

text \<open>\<open>!process.env.HF_TOKEN\<close>: an unset variable and the empty string are falsy.\<close>

definition token_missing :: "env \<Rightarrow> bool" where
  "token_missing e = (case HF_TOKEN e of None \<Rightarrow> True | Some t \<Rightarrow> t = [])"

text \<open>
  The request that \<open>fetch\<close> sends. The handler builds it only after it has found the
  token set; the template literal would print an unset token as \<open>undefined\<close>.
\<close>

definition request :: "env \<Rightarrow> jsstring \<Rightarrow> fetch_request" where
  "request e sentence =
     \<lparr>url = str ''https://router.huggingface.co/hf-inference/models/HuggingFaceTB/SmolLM3-3B'',
      authorization =
        str ''Bearer '' @ (case HF_TOKEN e of None \<Rightarrow> str ''undefined'' | Some t \<Rightarrow> t),
      inputs = sentence\<rparr>"

text \<open>\<open>data?.details?.prefill\<close> when \<open>data?.details?.prefill?.length\<close> is truthy.\<close>

definition prefill_of :: "parsed \<Rightarrow> token list option" where
  "prefill_of d =
     (case d of
        Malformed \<Rightarrow> None
      | JsonNull \<Rightarrow> None
      | JsonObject obj \<Rightarrow>
          (case details obj of
             None \<Rightarrow> None
           | Some dt \<Rightarrow>
               (case prefill dt of
                  None \<Rightarrow> None
                | Some ts \<Rightarrow> if length ts = 0 then None else Some ts)))"

text \<open>
  The \<open>try\<close> block: the exception it ends with, if any, the variables as it leaves
  them, and the events of the run. Every \<open>throw\<close> comes before the first assignment, so
  a run that throws leaves the variables as they were.
\<close>

definition try_block ::
  "env \<Rightarrow> (fetch_request \<Rightarrow> fetch_outcome) \<Rightarrow> (real \<Rightarrow> jsstring) \<Rightarrow> jsstring \<Rightarrow> vars
     \<Rightarrow> error option \<times> vars \<times> event list" where
  "try_block e net toFixed1 sentence v =
     (if token_missing e then (Some TokenNotSet, v, [])
      else
        (case net (request e sentence) of
           NetworkError \<Rightarrow> (Some FetchRejected, v, [Fetch (request e sentence)])
         | Response r \<Rightarrow>
             if \<not> ok r then
               (Some (ApiError (status r) (body_text r)), v, [Fetch (request e sentence)])
             else if body_json r = Malformed then
               (Some JsonRejected, v, [Fetch (request e sentence)])
             else
               (case prefill_of (body_json r) of
                  None \<Rightarrow> (Some NoLogprobs, v, [Fetch (request e sentence)])
                | Some ts \<Rightarrow>
                    (None,
                     v\<lparr>v_weirdness := weirdness (ppl ts),
                       v_perplexityInfo :=
                         str ''Perplexity '' @ [0x2248] @ str '' '' @ toFixed1 (ppl ts)\<rparr>,
                     [Fetch (request e sentence)]))))"

text \<open>\<open>(req.body.sentence || '').trim()\<close>\<close>

definition sentence_of :: "jsstring option \<Rightarrow> jsstring" where
  "sentence_of b = trim (case b of None \<Rightarrow> [] | Some s \<Rightarrow> if s = [] then [] else s)"

text \<open>
  The handler of \<open>POST /analyze\<close>: what it sends, and the events of the run. Outside
  the \<open>try\<close> block it calls \<open>trim\<close>, \<open>split\<close>, \<open>filter\<close>, \<open>escapeHtml\<close> and
  \<open>res.send\<close> on strings only, and none of them throws: the handler has no exceptional
  result of its own.
\<close>

definition analyze ::
  "env \<Rightarrow> (fetch_request \<Rightarrow> fetch_outcome) \<Rightarrow> (real \<Rightarrow> jsstring) \<Rightarrow> jsstring option
     \<Rightarrow> http_result \<times> event list" where
  "analyze e net toFixed1 b =
     (let sentence = sentence_of b in
      if sentence = [] then (Redirect (str ''/''), [])
      else
        let wc = wordCount sentence;
            v0 = \<lparr>v_weirdness = 0, v_perplexityInfo = [0x2014], v_errorMessage = None\<rparr>;
            (thrown, v1, evs) = try_block e net toFixed1 sentence v0;
            (v2, evs') =
              (case thrown of
                 None \<Rightarrow> (v1, evs)
               | Some err \<Rightarrow>
                   (v1\<lparr>v_perplexityInfo := str ''Error calculating weirdness'',
                       v_errorMessage :=
                         Some (str ''Could not reach Hugging Face. Check logs or try again later.'')\<rparr>,
                    evs @ [ConsoleError err]))
        in (Send \<lparr>p_sentence = escapeHtml sentence,
                  p_wordCount = wc,
                  p_weirdness = v_weirdness v2,
                  p_perplexityInfo = v_perplexityInfo v2,
                  p_error = (case v_errorMessage v2 of
                               None \<Rightarrow> None
                             | Some m \<Rightarrow> if m = [] then None else Some m)\<rparr>,
            evs'))"

section \<open>Word count and escaping\<close>

lemma words_of_Nil: "words_of [] = []"
  by (simp add: words_of.simps)

lemma words_of_dropWhile: "words_of (dropWhile isWhiteSpace s) = words_of s"
proof -
  have "dropWhile isWhiteSpace (dropWhile isWhiteSpace s) = dropWhile isWhiteSpace s"
    by (rule dropWhile_idem)
  then show ?thesis
    by (subst (1 2) words_of.simps) simp
qed

lemma words_of_space: "isWhiteSpace c \<Longrightarrow> words_of (c # cs) = words_of cs"
  using words_of_dropWhile [of "c # cs"] words_of_dropWhile [of cs] by simp

lemma words_of_letter:
  "\<not> isWhiteSpace c \<Longrightarrow>
     words_of (c # cs) =
       (c # takeWhile (\<lambda>x. \<not> isWhiteSpace x) cs)
         # words_of (dropWhile (\<lambda>x. \<not> isWhiteSpace x) cs)"
  by (subst words_of.simps) simp

lemma filter_split_from:
  "filter Boolean_str (split_from cur s) =
     (if cur = [] then words_of s
      else (cur @ takeWhile (\<lambda>x. \<not> isWhiteSpace x) s)
             # words_of (dropWhile (\<lambda>x. \<not> isWhiteSpace x) s))"
proof (induction cur s rule: split_from.induct)
  case (1 cur)
  show ?case by (simp add: Boolean_str_def words_of_Nil)
next
  case (2 cur c cs)
  show ?case
  proof (cases "isWhiteSpace c")
    case True
    with 2 show ?thesis
      by (simp add: Boolean_str_def words_of_dropWhile words_of_space)
  next
    case False
    with 2 show ?thesis
      by (simp add: words_of_letter)
  qed
qed

lemma wordCount_eq: "wordCount s = length (words_of s)"
  by (simp add: wordCount_def split_ws_def filter_split_from)

text \<open>
  Claim C6. For every input, the word count the handler computes on the trimmed
  sentence is the number of words of the trimmed sentence, that is of the non-empty
  fragments between its runs of whitespace; the input \<open>"  hello   world  "\<close> has word
  count 2.
\<close>

theorem wordCount_fragments:
  "wordCount (trim s) = length (words_of (trim s))
   \<and> wordCount (trim (str ''  hello   world  '')) = 2"
proof
  show "wordCount (trim s) = length (words_of (trim s))"
    by (rule wordCount_eq)
  show "wordCount (trim (str ''  hello   world  '')) = 2"
    by (simp add: wordCount_def split_ws_def str_def trim_def isWhiteSpace_def
        Boolean_str_def)
qed

lemma replaceAll_concat_map:
  "replaceAll c r (concat (map f s)) = concat (map (\<lambda>x. replaceAll c r (f x)) s)"
  by (induction s) (simp_all add: replaceAll_def)

lemma replaceAll_as_map: "replaceAll c r s = concat (map (\<lambda>x. replaceAll c r [x]) s)"
  by (simp add: replaceAll_def)

lemma entity_chain:
  "replaceAll 0x27 (str ''&#039;'')
     (replaceAll 0x22 (str ''&quot;'')
       (replaceAll 0x3E (str ''&gt;'')
         (replaceAll 0x3C (str ''&lt;'')
           (replaceAll 0x26 (str ''&amp;'') [x])))) = entity x"
  by (simp add: replaceAll_def entity_def str_def)

lemma escapeHtml_entity: "escapeHtml s = concat (map entity s)"
  unfolding escapeHtml_def
  apply (subst replaceAll_as_map [of "0x26"])
  apply (simp only: replaceAll_concat_map entity_chain)
  done

lemma entity_safe: "set (entity c) \<inter> {0x3C, 0x3E, 0x22, 0x27} = {}"
  by (simp add: entity_def str_def)

text \<open>
  Claim C10. For every input string, \<open>escapeHtml\<close> replaces each of \<open>&\<close>, \<open><\<close>, \<open>>\<close>,
  the double quote and the single quote by its entity and keeps every other character,
  and its output contains none of \<open><\<close>, \<open>>\<close>, the double quote and the single quote.
\<close>

theorem escapeHtml_no_markup:
  "escapeHtml s = concat (map entity s)
   \<and> set (escapeHtml s) \<inter> {0x3C, 0x3E, 0x22, 0x27} = {}"
  using entity_safe by (auto simp: escapeHtml_entity)

section \<open>Perplexity and score\<close>

lemma exp_taylor_lower:
  fixes x :: real
  assumes "0 \<le> x"
  shows "(\<Sum>m<n. x ^ m / fact m) \<le> exp x"
proof -
  obtain t where t: "exp x = (\<Sum>m<n. x ^ m / fact m) + (exp t / fact n) * x ^ n"
    using Maclaurin_exp_le [of x n] by blast
  have "0 \<le> (exp t / fact n) * x ^ n"
    using assms by simp
  with t show ?thesis by linarith
qed

lemma exp_taylor_upper:
  fixes x :: real
  assumes "0 \<le> x" "x \<le> 1"
  shows "exp x \<le> (\<Sum>m<n. x ^ m / fact m) + 3 * x ^ n / fact n"
proof -
  obtain t where t: "\<bar>t\<bar> \<le> \<bar>x\<bar>"
      "exp x = (\<Sum>m<n. x ^ m / fact m) + (exp t / fact n) * x ^ n"
    using Maclaurin_exp_le [of x n] by blast
  have "t \<le> 1" using t(1) assms by linarith
  then have "exp t \<le> exp 1" by simp
  also have "\<dots> \<le> 3" by (rule exp_le)
  finally have "exp t \<le> 3" .
  then have "exp t * (x ^ n / fact n) \<le> 3 * (x ^ n / fact n)"
    using assms by (intro mult_right_mono) simp_all
  with t(2) show ?thesis by (simp add: field_simps)
qed

lemma e_lower: "2718281 / 1000000 \<le> exp (1::real)"
  using exp_taylor_lower [of 1 10] by (simp add: eval_nat_numeral lessThan_Suc)

lemma e_upper: "exp (1::real) \<le> 2718283 / 1000000"
  using exp_taylor_upper [of 1 10] by (simp add: eval_nat_numeral lessThan_Suc)

lemma powr_17_10_power:
  fixes x :: real assumes "0 \<le> x" shows "(x powr (17 / 10)) ^ 10 = x ^ 17"
proof -
  have "(x powr (17 / 10)) ^ 10 = (x powr (17 / 10)) powr 10"
    by simp
  also have "\<dots> = x powr 17" by (simp add: powr_powr)
  also have "\<dots> = x ^ 17" using assms by simp
  finally show ?thesis .
qed

lemma powr_17_10_less:
  fixes x c :: real
  assumes "0 \<le> x" "0 \<le> c" "x ^ 17 < c ^ 10"
  shows "x powr (17 / 10) < c"
proof -
  have "(x powr (17 / 10)) ^ 10 < c ^ 10"
    using assms by (simp add: powr_17_10_power)
  then show ?thesis
    using assms(2) by (rule power_less_imp_less_base)
qed

lemma powr_17_10_ge:
  fixes x c :: real
  assumes "0 \<le> x" "c ^ 10 \<le> x ^ 17"
  shows "c \<le> x powr (17 / 10)"
proof (rule ccontr)
  assume "\<not> c \<le> x powr (17 / 10)"
  then have "x powr (17 / 10) < c" by simp
  then have "(x powr (17 / 10)) ^ 10 < c ^ 10"
    by (intro power_strict_mono) simp_all
  with assms show False by (simp add: powr_17_10_power)
qed

lemma Math_round_ties:
  "Math_round (5 / 2) = 3 \<and> Math_round (- 5 / 2) = - 2 \<and> round_half_away (- 5 / 2) = - 3"
  by (simp add: Math_round_def round_half_away_def)

lemma Math_round_eq: "real_of_int n - 1 / 2 \<le> x \<Longrightarrow> x < real_of_int n + 1 / 2 \<Longrightarrow> Math_round x = n"
  unfolding Math_round_def by (rule floor_unique) simp_all

lemma ln_e_plus_1_upper: "ln (exp 1 + 1 :: real) \<le> 657 / 500"
proof -
  have "1 + 157 / 500 + (157 / 500)\<^sup>2 / 2 + (157 / 500) ^ 3 / 6 \<le> exp (157 / 500 :: real)"
    using exp_taylor_lower [of "157 / 500" 4] by (simp add: eval_nat_numeral lessThan_Suc)
  then have "1368457 / 1000000 \<le> exp (157 / 500 :: real)"
    by (simp add: power2_eq_square power3_eq_cube)
  then have "exp 1 * (1368457 / 1000000) \<le> exp 1 * exp (157 / 500 :: real)"
    by (intro mult_left_mono) simp_all
  moreover have "exp 1 + 1 \<le> exp 1 * (1368457 / 1000000 :: real)"
    using e_lower by simp
  moreover have "exp 1 * exp (157 / 500 :: real) = exp (657 / 500)"
    by (simp add: exp_add [symmetric])
  ultimately have "exp 1 + 1 \<le> exp (657 / 500 :: real)" by linarith
  then have "ln (exp 1 + 1) \<le> ln (exp (657 / 500 :: real))"
    by (subst ln_le_cancel_iff) (simp_all add: add_pos_pos)
  then show ?thesis by simp
qed

lemma ln_e_plus_1_lower: "127 / 100 \<le> ln (exp 1 + 1 :: real)"
proof -
  have "exp (27 / 100 :: real) \<le> 1 + 27 / 100 + (27 / 100)\<^sup>2"
    by (rule exp_bound) simp_all
  then have "exp (27 / 100 :: real) \<le> 13429 / 10000"
    by (simp add: power2_eq_square)
  then have "exp 1 * exp (27 / 100 :: real) \<le> exp 1 * (13429 / 10000)"
    by (intro mult_left_mono) simp_all
  moreover have "exp 1 * (13429 / 10000 :: real) \<le> exp 1 + 1"
    using e_upper by simp
  moreover have "exp 1 * exp (27 / 100 :: real) = exp (127 / 100)"
    by (simp add: exp_add [symmetric])
  ultimately have "exp (127 / 100 :: real) \<le> exp 1 + 1" by linarith
  then show ?thesis
    by (subst ln_ge_iff) (simp_all add: add_pos_pos)
qed

lemma raw_e: "33 / 2 \<le> raw (exp 1)" "raw (exp 1) < 35 / 2"
proof -
  let ?L = "ln (exp 1 + 1 :: real)"
  have L0: "0 \<le> ?L" using ln_e_plus_1_lower by linarith
  have "(3 / 2 :: real) ^ 10 \<le> (127 / 100) ^ 17" by (simp add: power_divide)
  also have "\<dots> \<le> ?L ^ 17"
    using ln_e_plus_1_lower by (intro power_mono) simp_all
  finally have "3 / 2 \<le> ?L powr (17 / 10)"
    using L0 by (intro powr_17_10_ge)
  then show "33 / 2 \<le> raw (exp 1)" by (simp add: raw_def)
  have "?L ^ 17 \<le> (657 / 500) ^ 17"
    using ln_e_plus_1_upper L0 by (intro power_mono)
  also have "\<dots> < (35 / 22 :: real) ^ 10" by (simp add: power_divide)
  finally have "?L powr (17 / 10) < 35 / 22"
    using L0 by (intro powr_17_10_less) simp_all
  then show "raw (exp 1) < 35 / 2" by (simp add: raw_def)
qed

lemma weirdness_e: "weirdness (exp 1) = 17"
proof -
  have "Math_round (raw (exp 1)) = 17"
    using raw_e by (intro Math_round_eq) simp_all
  then show ?thesis by (simp add: weirdness_def)
qed


lemma ln2_lower: "2 / 3 \<le> ln (2 :: real)"
proof -
  have "exp (2 / 3 :: real) \<le> 2"
    using exp_taylor_upper [of "2 / 3" 4] by (simp add: eval_nat_numeral lessThan_Suc)
  then show ?thesis by (subst ln_ge_iff) simp_all
qed

lemma ln2_upper: "ln (2 :: real) \<le> 7 / 10"
proof -
  have "2 \<le> exp (7 / 10 :: real)"
    using exp_taylor_lower [of "7 / 10" 4] by (simp add: eval_nat_numeral lessThan_Suc)
  then have "ln 2 \<le> ln (exp (7 / 10 :: real))"
    by (subst ln_le_cancel_iff) simp_all
  then show ?thesis by simp
qed

lemma raw_1: "11 / 2 \<le> raw 1" "raw 1 < 13 / 2"
proof -
  let ?L = "ln (2 :: real)"
  have L0: "0 \<le> ?L" by simp
  have "(1 / 2 :: real) ^ 10 \<le> (2 / 3) ^ 17" by (simp add: power_divide)
  also have "\<dots> \<le> ?L ^ 17"
    using ln2_lower by (intro power_mono) simp_all
  finally have "1 / 2 \<le> ?L powr (17 / 10)"
    using L0 by (intro powr_17_10_ge)
  then show "11 / 2 \<le> raw 1" by (simp add: raw_def)
  have "?L ^ 17 \<le> (7 / 10) ^ 17"
    using ln2_upper L0 by (intro power_mono)
  also have "\<dots> < (13 / 22 :: real) ^ 10" by (simp add: power_divide)
  finally have "?L powr (17 / 10) < 13 / 22"
    using L0 by (intro powr_17_10_less) simp_all
  then show "raw 1 < 13 / 2" by (simp add: raw_def)
qed

lemma weirdness_1: "weirdness 1 = 6"
proof -
  have "Math_round (raw 1) = 6"
    using raw_1 by (intro Math_round_eq) simp_all
  then show ?thesis by (simp add: weirdness_def)
qed

lemma exp_10_bounds: "22026 < exp (10 :: real)" "exp (10 :: real) < 22027"
proof -
  have eq: "exp (10 :: real) = exp 1 ^ 10"
    using exp_of_nat_mult [of 10 "1 :: real"] by simp
  have "(22026 :: real) < (2718281 / 1000000) ^ 10" by (simp add: power_divide)
  also have "\<dots> \<le> exp 1 ^ 10"
    using e_lower by (intro power_mono) simp_all
  finally show "22026 < exp (10 :: real)" by (simp add: eq)
  have "exp (1 :: real) ^ 10 \<le> (2718283 / 1000000) ^ 10"
    using e_upper by (intro power_mono) simp_all
  also have "\<dots> < (22027 :: real)" by (simp add: power_divide)
  finally show "exp (10 :: real) < 22027" by (simp add: eq)
qed

lemma exp_4_upper: "exp (4 :: real) \<le> 55"
proof -
  have eq: "exp (4 :: real) = exp 1 ^ 4"
    using exp_of_nat_mult [of 4 "1 :: real"] by simp
  have "exp (1 :: real) ^ 4 \<le> (2718283 / 1000000) ^ 4"
    using e_upper by (intro power_mono) simp_all
  also have "\<dots> \<le> (55 :: real)" by (simp add: power_divide)
  finally show ?thesis by (simp add: eq)
qed

lemma weirdness_saturated:
  assumes "54 \<le> p"
  shows "weirdness p = 100"
proof -
  let ?L = "ln (p + 1)"
  have "exp 4 \<le> p + 1" using exp_4_upper assms by linarith
  then have L4: "4 \<le> ?L"
    using assms by (subst ln_ge_iff) simp_all
  have "(199 / 22 :: real) ^ 10 \<le> 4 ^ 17" by (simp add: power_divide)
  also have "\<dots> \<le> ?L ^ 17"
    using L4 by (intro power_mono) simp_all
  finally have "199 / 22 \<le> ?L powr (17 / 10)"
    using L4 by (intro powr_17_10_ge) simp_all
  then have "100 \<le> raw p + 1 / 2" by (simp add: raw_def)
  then have "100 \<le> Math_round (raw p)"
    unfolding Math_round_def by (simp add: le_floor_iff)
  then show ?thesis by (simp add: weirdness_def)
qed

lemma raw_nonneg: "0 \<le> raw p"
  by (simp add: raw_def)

lemma raw_mono:
  assumes "0 \<le> p1" "p1 \<le> p2"
  shows "raw p1 \<le> raw p2"
proof -
  have "ln (p1 + 1) \<le> ln (p2 + 1)"
    using assms by (subst ln_le_cancel_iff) simp_all
  moreover have "0 \<le> ln (p1 + 1)" using assms by simp
  ultimately have "ln (p1 + 1) powr (17 / 10) \<le> ln (p2 + 1) powr (17 / 10)"
    by (intro powr_mono2) simp_all
  then show ?thesis by (simp add: raw_def)
qed

lemma Math_round_mono: "x \<le> y \<Longrightarrow> Math_round x \<le> Math_round y"
  unfolding Math_round_def by (intro floor_mono) simp

lemma foldl_plus: "foldl (\<lambda>a b. a + b) a xs = a + sum_list xs" for a :: real
  by (induction xs arbitrary: a) simp_all

lemma totalLogProb_sum: "totalLogProb ts = sum_list (map logprob_or_0 ts)"
  by (simp add: totalLogProb_def foldl_plus)




lemma weirdness_on_tie:
  assumes "raw_on P p = 177 / 2"
  shows "weirdness_on P p = 89"
proof -
  have "Math_round (177 / 2) = 89"
    by (simp add: Math_round_def)
  then show ?thesis
    by (simp add: weirdness_on_def assms)
qed



text \<open>
  Claim C2. For every positive perplexity the score is an integer between 0 and 100,
  both included, and it is 100 for every perplexity from 54 on, however large.
\<close>

theorem weirdness_range:
  assumes "0 < p"
  shows "0 \<le> weirdness p \<and> weirdness p \<le> 100 \<and> (54 \<le> p \<longrightarrow> weirdness p = 100)"
  using weirdness_saturated [of p] by (simp add: weirdness_def)

theorem weirdness_range_witness:
  "(0 :: real) < 54 \<and> 0 \<le> weirdness 54 \<and> weirdness 54 \<le> 100 \<and> weirdness 54 = 100"
  using weirdness_range [of 54] by simp

text \<open>
  Claim C4. For positive perplexities \<open>p1 < p2\<close> the score of \<open>p1\<close> is at most the
  score of \<open>p2\<close>; so are the values before rounding and the rounded values before the
  clamp.
\<close>

theorem weirdness_monotone:
  assumes "0 < p1" "p1 < p2"
  shows "raw p1 \<le> raw p2
    \<and> Math_round (raw p1) \<le> Math_round (raw p2)
    \<and> weirdness p1 \<le> weirdness p2"
proof -
  have r: "raw p1 \<le> raw p2"
    using assms by (intro raw_mono) simp_all
  then have m: "Math_round (raw p1) \<le> Math_round (raw p2)"
    by (rule Math_round_mono)
  then have "weirdness p1 \<le> weirdness p2"
    by (simp add: weirdness_def)
  with r m show ?thesis by simp
qed

theorem weirdness_monotone_witness:
  "(0 :: real) < 1 \<and> (1 :: real) < 54
   \<and> raw 1 \<le> raw 54 \<and> Math_round (raw 1) \<le> Math_round (raw 54)
   \<and> weirdness 1 \<le> weirdness 54"
  using weirdness_monotone [of 1 54] by simp

lemma avgLogProb_scenario_A:
  "avgLogProb [\<lparr>logprob = Some (- 1)\<rparr>, \<lparr>logprob = Some (- 1)\<rparr>, \<lparr>logprob = Some (- 1)\<rparr>] = - 1"
  by (simp add: avgLogProb_def totalLogProb_def tokenCount_def logprob_or_0_def)

lemma avgLogProb_scenario_B: "avgLogProb [\<lparr>logprob = Some 0\<rparr>] = 0"
  by (simp add: avgLogProb_def totalLogProb_def tokenCount_def logprob_or_0_def)

text \<open>
  Claim C7. The log-probabilities \<open>[-1, -1, -1]\<close> have mean \<open>-1\<close>, perplexity
  \<open>2.71828\<close> to five decimals and score 17; \<open>[0]\<close> has perplexity 1 and score 6; every
  sequence of mean \<open>-10\<close> has a perplexity between 22026 and 22027 and the score 100.
\<close>

theorem scenarios:
  "avgLogProb [\<lparr>logprob = Some (- 1)\<rparr>, \<lparr>logprob = Some (- 1)\<rparr>, \<lparr>logprob = Some (- 1)\<rparr>] = - 1
   \<and> \<bar>ppl [\<lparr>logprob = Some (- 1)\<rparr>, \<lparr>logprob = Some (- 1)\<rparr>, \<lparr>logprob = Some (- 1)\<rparr>]
        - 271828 / 100000\<bar> < 1 / 100000
   \<and> weirdness (ppl [\<lparr>logprob = Some (- 1)\<rparr>, \<lparr>logprob = Some (- 1)\<rparr>, \<lparr>logprob = Some (- 1)\<rparr>]) = 17
   \<and> avgLogProb [\<lparr>logprob = Some 0\<rparr>] = 0
   \<and> ppl [\<lparr>logprob = Some 0\<rparr>] = 1
   \<and> weirdness (ppl [\<lparr>logprob = Some 0\<rparr>]) = 6
   \<and> (avgLogProb ts = - 10 \<longrightarrow>
        22026 < ppl ts \<and> ppl ts < 22027 \<and> weirdness (ppl ts) = 100)"
proof -
  have A: "ppl [\<lparr>logprob = Some (- 1)\<rparr>, \<lparr>logprob = Some (- 1)\<rparr>, \<lparr>logprob = Some (- 1)\<rparr>] = exp 1"
    by (simp add: ppl_def avgLogProb_scenario_A)
  have B: "ppl [\<lparr>logprob = Some 0\<rparr>] = 1"
    by (simp add: ppl_def avgLogProb_scenario_B)
  have e: "\<bar>exp 1 - 271828 / 100000\<bar> < (1 / 100000 :: real)"
    using e_lower e_upper by (simp add: abs_less_iff)
  have C: "22026 < ppl ts \<and> ppl ts < 22027 \<and> weirdness (ppl ts) = 100"
    if "avgLogProb ts = - 10"
  proof -
    have "ppl ts = exp 10" using that by (simp add: ppl_def)
    moreover have "weirdness (exp 10) = 100"
      using exp_10_bounds(1) by (intro weirdness_saturated) simp
    ultimately show ?thesis using exp_10_bounds by simp
  qed
  show ?thesis
    using A B C e weirdness_e weirdness_1 avgLogProb_scenario_A avgLogProb_scenario_B
    by simp
qed

theorem scenarios_witness:
  "avgLogProb [\<lparr>logprob = Some (- 10)\<rparr>] = - 10
   \<and> 22026 < ppl [\<lparr>logprob = Some (- 10)\<rparr>]
   \<and> ppl [\<lparr>logprob = Some (- 10)\<rparr>] < 22027
   \<and> weirdness (ppl [\<lparr>logprob = Some (- 10)\<rparr>]) = 100"
proof -
  have h: "avgLogProb [\<lparr>logprob = Some (- 10)\<rparr>] = - 10"
    by (simp add: avgLogProb_def totalLogProb_def tokenCount_def logprob_or_0_def)
  show ?thesis
    using h scenarios [of "[\<lparr>logprob = Some (- 10)\<rparr>]"] by simp
qed

section \<open>The handler\<close>

lemma str_nonempty [simp]: "str (c # cs) \<noteq> []"
  by (simp add: str_def)

lemma try_block_thrown:
  assumes "token_missing e
     \<or> net (request e s) = NetworkError
     \<or> (\<exists>r. net (request e s) = Response r \<and> (\<not> ok r \<or> prefill_of (body_json r) = None))"
  shows "\<exists>err evs. try_block e net toFixed1 s v = (Some err, v, evs)"
  using assms
  by (auto simp: try_block_def prefill_of_def split: fetch_outcome.splits option.splits)

lemma try_block_ok:
  assumes "\<not> token_missing e" "net (request e s) = Response r" "ok r"
    "prefill_of (body_json r) = Some ts"
  shows "try_block e net toFixed1 s v =
    (None,
     v\<lparr>v_weirdness := weirdness (ppl ts),
       v_perplexityInfo := str ''Perplexity '' @ [0x2248] @ str '' '' @ toFixed1 (ppl ts)\<rparr>,
     [Fetch (request e s)])"
  using assms by (auto simp: try_block_def prefill_of_def)

lemma analyze_catch:
  assumes "sentence_of b \<noteq> []"
    and "try_block e net toFixed1 (sentence_of b)
           \<lparr>v_weirdness = 0, v_perplexityInfo = [0x2014], v_errorMessage = None\<rparr>
         = (Some err, \<lparr>v_weirdness = 0, v_perplexityInfo = [0x2014], v_errorMessage = None\<rparr>, evs)"
  shows "analyze e net toFixed1 b =
    (Send \<lparr>p_sentence = escapeHtml (sentence_of b),
           p_wordCount = wordCount (sentence_of b),
           p_weirdness = 0,
           p_perplexityInfo = str ''Error calculating weirdness'',
           p_error = Some (str ''Could not reach Hugging Face. Check logs or try again later.'')\<rparr>,
     evs @ [ConsoleError err])"
  using assms by (simp add: analyze_def Let_def)

text \<open>
  Claim C3. For every non-empty (trimmed) sentence, when the token is missing, or
  \<open>fetch\<close> fails, or the response is not \<open>ok\<close>, or its body holds no token (an empty
  or missing \<open>prefill\<close>), the handler sends the page with weirdness 0, the display string
  \<open>Error calculating weirdness\<close> and the error message, and the exception ends in
  \<open>console.error\<close>.
\<close>

theorem analyze_fallback:
  assumes "sentence_of b \<noteq> []"
    and "token_missing e
     \<or> net (request e (sentence_of b)) = NetworkError
     \<or> (\<exists>r. net (request e (sentence_of b)) = Response r
            \<and> (\<not> ok r \<or> prefill_of (body_json r) = None))"
  shows "fst (analyze e net toFixed1 b) =
      Send \<lparr>p_sentence = escapeHtml (sentence_of b),
            p_wordCount = wordCount (sentence_of b),
            p_weirdness = 0,
            p_perplexityInfo = str ''Error calculating weirdness'',
            p_error = Some (str ''Could not reach Hugging Face. Check logs or try again later.'')\<rparr>
    \<and> (\<exists>err. last (snd (analyze e net toFixed1 b)) = ConsoleError err)"
proof -
  obtain err evs where
    "try_block e net toFixed1 (sentence_of b)
       \<lparr>v_weirdness = 0, v_perplexityInfo = [0x2014], v_errorMessage = None\<rparr>
     = (Some err, \<lparr>v_weirdness = 0, v_perplexityInfo = [0x2014], v_errorMessage = None\<rparr>, evs)"
    using try_block_thrown [of e net "sentence_of b" toFixed1] assms(2) by blast
  from analyze_catch [OF assms(1) this] show ?thesis by simp
qed

theorem analyze_fallback_witness:
  "fst (analyze \<lparr>HF_TOKEN = Some (str ''hf_abc'')\<rparr>
          (\<lambda>q. Response \<lparr>ok = True, status = 200, body_text = str ''{}'',
                  body_json = JsonObject \<lparr>details = Some \<lparr>prefill = Some []\<rparr>\<rparr>\<rparr>)
          (\<lambda>x. []) (Some (str '' hi '')))
   = Send \<lparr>p_sentence = str ''hi'', p_wordCount = 1, p_weirdness = 0,
           p_perplexityInfo = str ''Error calculating weirdness'',
           p_error = Some (str ''Could not reach Hugging Face. Check logs or try again later.'')\<rparr>"
proof -
  have s: "sentence_of (Some (str '' hi '')) = str ''hi''"
    by (simp add: sentence_of_def trim_def str_def isWhiteSpace_def)
  have w: "wordCount (str ''hi'') = 1"
    by (simp add: wordCount_def split_ws_def str_def isWhiteSpace_def Boolean_str_def)
  have h: "escapeHtml (str ''hi'') = str ''hi''"
    by (simp add: escapeHtml_def replaceAll_def str_def)
  show ?thesis
    using analyze_fallback [of "Some (str '' hi '')" "\<lparr>HF_TOKEN = Some (str ''hf_abc'')\<rparr>"
        "\<lambda>q. Response \<lparr>ok = True, status = 200, body_text = str ''{}'',
                  body_json = JsonObject \<lparr>details = Some \<lparr>prefill = Some []\<rparr>\<rparr>\<rparr>"
        "\<lambda>x. []"]
    by (simp add: s w h prefill_of_def)
qed

text \<open>
  Claim C9. For every non-empty (trimmed) sentence, when \<open>HF_TOKEN\<close> is unset or empty
  the \<open>try\<close> block throws the error of the missing token, and the run of the handler
  calls \<open>fetch\<close> not once: its only event is the line of \<open>console.error\<close>.
\<close>

theorem no_fetch_without_token:
  assumes "sentence_of b \<noteq> []"
    and "HF_TOKEN e = None \<or> HF_TOKEN e = Some []"
  shows "fst (try_block e net toFixed1 (sentence_of b) v) = Some TokenNotSet
    \<and> snd (analyze e net toFixed1 b) = [ConsoleError TokenNotSet]
    \<and> (\<forall>q. Fetch q \<notin> set (snd (analyze e net toFixed1 b)))"
proof -
  have m: "token_missing e"
    using assms(2) by (auto simp: token_missing_def)
  then have t: "try_block e net toFixed1 (sentence_of b) v = (Some TokenNotSet, v, [])" for v
    by (simp add: try_block_def)
  from analyze_catch [OF assms(1) t] t show ?thesis by simp
qed

theorem no_fetch_without_token_witness:
  "sentence_of (Some (str ''hi'')) \<noteq> []
   \<and> snd (analyze \<lparr>HF_TOKEN = None\<rparr> (\<lambda>q. NetworkError) (\<lambda>x. []) (Some (str ''hi'')))
       = [ConsoleError TokenNotSet]"
proof -
  have s: "sentence_of (Some (str ''hi'')) \<noteq> []"
    by (simp add: sentence_of_def trim_def str_def isWhiteSpace_def)
  show ?thesis
    using s no_fetch_without_token [of "Some (str ''hi'')" "\<lparr>HF_TOKEN = None\<rparr>"
        "\<lambda>q. NetworkError" "\<lambda>x. []"]
    by simp
qed

text \<open>
  Claim C8. A token whose \<open>logprob\<close> is missing adds 0 to the sum of the
  log-probabilities and is counted among the tokens; a response that holds such a token
  is not rejected: the \<open>try\<close> block throws nothing and sets the score from the sum of
  the other tokens divided by the number of all tokens.
\<close>

theorem missing_logprob_neutral:
  assumes "logprob t = None"
    and "\<not> token_missing e"
    and "net (request e s) = Response r"
    and "ok r"
    and "body_json r = JsonObject \<lparr>details = Some \<lparr>prefill = Some (xs @ t # ys)\<rparr>\<rparr>"
  shows "totalLogProb (xs @ t # ys) = totalLogProb (xs @ ys)
    \<and> tokenCount (xs @ t # ys) = tokenCount (xs @ ys) + 1
    \<and> fst (try_block e net toFixed1 s v) = None
    \<and> v_weirdness (fst (snd (try_block e net toFixed1 s v)))
        = weirdness (exp (- (totalLogProb (xs @ ys) / real (length xs + length ys + 1))))"
proof -
  have z: "logprob_or_0 t = 0"
    using assms(1) by (simp add: logprob_or_0_def)
  then have total: "totalLogProb (xs @ t # ys) = totalLogProb (xs @ ys)"
    by (simp add: totalLogProb_sum)
  have count: "tokenCount (xs @ t # ys) = tokenCount (xs @ ys) + 1"
    by (simp add: tokenCount_def)
  have "prefill_of (body_json r) = Some (xs @ t # ys)"
    using assms(5) by (simp add: prefill_of_def)
  then have "try_block e net toFixed1 s v =
    (None,
     v\<lparr>v_weirdness := weirdness (ppl (xs @ t # ys)),
       v_perplexityInfo :=
         str ''Perplexity '' @ [0x2248] @ str '' '' @ toFixed1 (ppl (xs @ t # ys))\<rparr>,
     [Fetch (request e s)])"
    using assms(2,3,4) by (intro try_block_ok)
  then have "fst (try_block e net toFixed1 s v) = None"
    and "v_weirdness (fst (snd (try_block e net toFixed1 s v))) = weirdness (ppl (xs @ t # ys))"
    by simp_all
  moreover have "ppl (xs @ t # ys)
      = exp (- (totalLogProb (xs @ ys) / real (length xs + length ys + 1)))"
    by (simp add: ppl_def avgLogProb_def total tokenCount_def)
  ultimately show ?thesis using total count by simp
qed

theorem missing_logprob_neutral_witness:
  "logprob \<lparr>logprob = None\<rparr> = None
   \<and> fst (try_block \<lparr>HF_TOKEN = Some (str ''hf_abc'')\<rparr>
          (\<lambda>q. Response \<lparr>ok = True, status = 200, body_text = str ''{}'',
                  body_json = JsonObject \<lparr>details = Some \<lparr>prefill =
                    Some [\<lparr>logprob = None\<rparr>, \<lparr>logprob = Some (- 2)\<rparr>]\<rparr>\<rparr>\<rparr>)
          (\<lambda>x. []) (str ''hi'')
          \<lparr>v_weirdness = 0, v_perplexityInfo = [0x2014], v_errorMessage = None\<rparr>) = None
   \<and> v_weirdness (fst (snd (try_block \<lparr>HF_TOKEN = Some (str ''hf_abc'')\<rparr>
          (\<lambda>q. Response \<lparr>ok = True, status = 200, body_text = str ''{}'',
                  body_json = JsonObject \<lparr>details = Some \<lparr>prefill =
                    Some [\<lparr>logprob = None\<rparr>, \<lparr>logprob = Some (- 2)\<rparr>]\<rparr>\<rparr>\<rparr>)
          (\<lambda>x. []) (str ''hi'')
          \<lparr>v_weirdness = 0, v_perplexityInfo = [0x2014], v_errorMessage = None\<rparr>)))
       = weirdness (exp 1)"
  using missing_logprob_neutral [of "\<lparr>logprob = None\<rparr>" "\<lparr>HF_TOKEN = Some (str ''hf_abc'')\<rparr>"
      "\<lambda>q. Response \<lparr>ok = True, status = 200, body_text = str ''{}'',
                  body_json = JsonObject \<lparr>details = Some \<lparr>prefill =
                    Some [\<lparr>logprob = None\<rparr>, \<lparr>logprob = Some (- 2)\<rparr>]\<rparr>\<rparr>\<rparr>"
      "str ''hi''"
      "\<lparr>ok = True, status = 200, body_text = str ''{}'',
                  body_json = JsonObject \<lparr>details = Some \<lparr>prefill =
                    Some [\<lparr>logprob = None\<rparr>, \<lparr>logprob = Some (- 2)\<rparr>]\<rparr>\<rparr>\<rparr>"
      "[]" "[\<lparr>logprob = Some (- 2)\<rparr>]" "\<lambda>x. []"
      "\<lparr>v_weirdness = 0, v_perplexityInfo = [0x2014], v_errorMessage = None\<rparr>"]
  by (simp add: token_missing_def totalLogProb_def logprob_or_0_def)

end
